theory Spec2Isabelle
  imports Complex_Main "HOL-Library.Word" "HOL-Library.List_Lexorder" "HOL-Library.Char_ord"
begin

section \<open>tinychain: a shallow embedding of \<^verbatim>\<open>tinychain.py\<close>\<close>

text \<open>
  The module keeps its chain, side branches, UTXO set and mempool in module-level
  variables; here they are the fields of a record that every operation takes and gives
  back. An exception is a value of type \<open>exn\<close>, and a function that can raise returns
  \<open>exn + 'a\<close>. The libraries the module calls (hashlib, ecdsa, base58, the clock) are
  fields of a record \<open>env\<close> of parameters. Logging, the sockets, the lock and the
  mining thread with its interrupt flag are left out: the operations are modelled as
  they run one at a time.
\<close>

subsection \<open>Python builtins\<close>

type_synonym bytes = "8 word list"

definition hexchar :: "nat \<Rightarrow> char" where
  "hexchar n = ''0123456789abcdef'' ! n"

text \<open>\<^verbatim>\<open>str(n)\<close> for an integer: decimal digits, a minus sign when negative.\<close>

fun digits_of :: "nat \<Rightarrow> string" where
  "digits_of n = (if n < 10 then [hexchar n] else digits_of (n div 10) @ [hexchar (n mod 10)])"

declare digits_of.simps [simp del]

definition py_str :: "int \<Rightarrow> string" where
  "py_str i = (if i < 0 then CHR ''-'' # digits_of (nat (- i)) else digits_of (nat i))"

text \<open>\<^verbatim>\<open>binascii.hexlify(b).decode()\<close>: two lowercase hexadecimal digits for each byte.\<close>

definition hexlify :: "bytes \<Rightarrow> string" where
  "hexlify b = concat (map (\<lambda>w. [hexchar (unat w div 16), hexchar (unat w mod 16)]) b)"

definition hexval :: "char \<Rightarrow> nat option" where
  "hexval c =
     (let n = (of_char c :: nat) in
      if 48 \<le> n \<and> n \<le> 57 then Some (n - 48)
      else if 97 \<le> n \<and> n \<le> 102 then Some (n - 87)
      else if 65 \<le> n \<and> n \<le> 70 then Some (n - 55)
      else None)"

text \<open>
  A 256-bit digest as \<^verbatim>\<open>hexdigest()\<close> prints it: 64 lowercase hexadecimal digits,
  the most significant first.
\<close>

primrec hexn :: "nat \<Rightarrow> nat \<Rightarrow> string" where
  "hexn 0 n = []"
| "hexn (Suc k) n = hexn k (n div 16) @ [hexchar (n mod 16)]"

definition hexdigest :: "nat \<Rightarrow> string" where
  "hexdigest n = hexn 64 n"

text \<open>Python slices \<^verbatim>\<open>xs[:i]\<close> and \<^verbatim>\<open>xs[i:]\<close>: a negative index counts from the end.\<close>

definition slice_to :: "'a list \<Rightarrow> int \<Rightarrow> 'a list" where
  "slice_to xs i = (if i < 0 then take (nat (int (length xs) + i)) xs else take (nat i) xs)"

definition slice_from :: "'a list \<Rightarrow> int \<Rightarrow> 'a list" where
  "slice_from xs i = (if i < 0 then drop (nat (int (length xs) + i)) xs else drop (nat i) xs)"

text \<open>\<^verbatim>\<open>sep.join(parts)\<close>.\<close>

fun join :: "string \<Rightarrow> string list \<Rightarrow> string" where
  "join sep [] = []"
| "join sep [x] = x"
| "join sep (x # y # ys) = x @ sep @ join sep (y # ys)"

subsection \<open>The data model\<close>

record OutPoint =
  txid :: string
  txout_idx :: int

record TxIn =
  to_spend :: "OutPoint option"
  unlock_sig :: bytes
  unlock_pk :: "bytes option"
  sequence :: int

record TxOut =
  "value" :: int
  to_address :: string

text \<open>
  The fields of \<^verbatim>\<open>UnspentTxOut\<close> that share a name with a field of another class
  carry the prefix \<open>utxo_\<close>.
\<close>

record UnspentTxOut =
  utxo_value :: int
  utxo_to_address :: string
  utxo_txid :: string
  tx_idx :: int
  utxo_is_coinbase :: bool
  height :: int

record Transaction =
  txins :: "TxIn list"
  txouts :: "TxOut list"
  locktime :: "int option"

record Block =
  version :: int
  prev_block_hash :: "string option"
  merkle_hash :: string
  timestamp :: int
  bits :: int
  nonce :: int
  txns :: "Transaction list"

text \<open>
  Exceptions. The two validation errors carry their message and the value to orphan
  (\<^verbatim>\<open>to_orphan\<close>); a message that the source builds from the \<^verbatim>\<open>repr\<close> of a value
  keeps its fixed text only.
\<close>

datatype exn =
    BlockValidationError string "Block option"
  | TxnValidationError string "Transaction option"
  | TxUnlockError string
  | TypeError
  | AttributeError
  | IndexError
  | KeyError
  | ValueError
  | LibraryError

definition outpoint :: "UnspentTxOut \<Rightarrow> OutPoint" where
  "outpoint u = \<lparr>txid = utxo_txid u, txout_idx = tx_idx u\<rparr>"

text \<open>\<^verbatim>\<open>Transaction.is_coinbase\<close>.\<close>

definition is_coinbase :: "Transaction \<Rightarrow> bool" where
  "is_coinbase t = (length (txins t) = 1 \<and> to_spend (txins t ! 0) = None)"

text \<open>\<^verbatim>\<open>Transaction.create_coinbase\<close>; \<^verbatim>\<open>str(height).encode()\<close> is the ASCII of the digits.\<close>

definition encode :: "string \<Rightarrow> bytes" where
  "encode s = map of_char s"

definition create_coinbase :: "string \<Rightarrow> int \<Rightarrow> int \<Rightarrow> Transaction" where
  "create_coinbase pay_to_addr v h =
     \<lparr>txins = [\<lparr>to_spend = None, unlock_sig = encode (py_str h), unlock_pk = None,
               sequence = 0\<rparr>],
      txouts = [\<lparr>value = v, to_address = pay_to_addr\<rparr>],
      locktime = None\<rparr>"

subsection \<open>Serialization\<close>

text \<open>
  \<^verbatim>\<open>serialize\<close> turns a value into JSON-ready primitives (\<^verbatim>\<open>contents_to_primitive\<close>)
  and prints them with \<^verbatim>\<open>json.dumps(..., sort_keys=True, separators=(',', ':'))\<close>;
  \<^verbatim>\<open>deserialize\<close> parses with \<^verbatim>\<open>json.loads\<close> and rebuilds the values
  (\<^verbatim>\<open>contents_to_objs\<close>). The json library is not part of the module: a JSON document
  is the tree \<open>json\<close>, \<open>json_dumps\<close> prints its text, and \<^verbatim>\<open>json.loads\<close> of that text
  is the tree again, its keys in the order of the text. An object's keys are distinct.
\<close>

datatype json =
    JNull
  | JBool bool
  | JInt int
  | JStr string
  | JList "json list"
  | JObj "(string \<times> json) list"

text \<open>
  The values \<^verbatim>\<open>serialize\<close> accepts and \<^verbatim>\<open>deserialize\<close> builds. \<open>PNamed c fs\<close> is
  an instance of the NamedTuple class \<open>c\<close> with its fields in declaration order.
  Every other Python value makes \<^verbatim>\<open>contents_to_primitive\<close> raise ValueError.
\<close>

datatype pyobj =
    PNone
  | PBool bool
  | PInt int
  | PStr string
  | PBytes bytes
  | PList "pyobj list"
  | PDict "(string \<times> pyobj) list"
  | PNamed string "(string \<times> pyobj) list"

primrec contents_to_primitive :: "pyobj \<Rightarrow> json" where
  "contents_to_primitive PNone = JNull"
| "contents_to_primitive (PBool b) = JBool b"
| "contents_to_primitive (PInt i) = JInt i"
| "contents_to_primitive (PStr s) = JStr s"
| "contents_to_primitive (PBytes b) = JStr (hexlify b)"
| "contents_to_primitive (PList xs) = JList (map contents_to_primitive xs)"
| "contents_to_primitive (PDict kvs) = JObj (map (map_prod id contents_to_primitive) kvs)"
| "contents_to_primitive (PNamed c fs) =
     JObj (map (map_prod id contents_to_primitive) fs @ [(''_type'', JStr c)])"

text \<open>
  What \<^verbatim>\<open>json.dumps\<close> writes for one character of a string (\<^verbatim>\<open>ensure_ascii\<close> is on):
  the short escapes, the character itself when printable ASCII, \<^verbatim>\<open>\u00XX\<close> otherwise.
  A character is one of the first 256 code points.
\<close>

definition json_escape :: "char \<Rightarrow> string" where
  "json_escape c =
     (if c = CHR 0x22 then [CHR 0x5C, CHR 0x22]
      else if c = CHR 0x5C then [CHR 0x5C, CHR 0x5C]
      else if c = CHR 0x0A then [CHR 0x5C, CHR ''n'']
      else if c = CHR 0x0D then [CHR 0x5C, CHR ''r'']
      else if c = CHR 0x09 then [CHR 0x5C, CHR ''t'']
      else if c = CHR 0x08 then [CHR 0x5C, CHR ''b'']
      else if c = CHR 0x0C then [CHR 0x5C, CHR ''f'']
      else if 32 \<le> (of_char c :: nat) \<and> (of_char c :: nat) \<le> 126 then [c]
      else [CHR 0x5C, CHR ''u'', CHR ''0'', CHR ''0'',
            hexchar ((of_char c :: nat) div 16), hexchar ((of_char c :: nat) mod 16)])"

definition json_string :: "string \<Rightarrow> string" where
  "json_string s = [CHR 0x22] @ concat (map json_escape s) @ [CHR 0x22]"

definition json_member :: "string \<times> string \<Rightarrow> string" where
  "json_member kv = json_string (fst kv) @ '':'' @ snd kv"

primrec json_dumps :: "json \<Rightarrow> string" where
  "json_dumps JNull = ''null''"
| "json_dumps (JBool b) = (if b then ''true'' else ''false'')"
| "json_dumps (JInt i) = py_str i"
| "json_dumps (JStr s) = json_string s"
| "json_dumps (JList xs) = ''['' @ join '','' (map json_dumps xs) @ '']''"
| "json_dumps (JObj kvs) =
     ''{'' @ join '','' (map json_member (sort_key fst (map (map_prod id json_dumps) kvs)))
       @ ''}''"

definition serialize :: "pyobj \<Rightarrow> string" where
  "serialize obj = json_dumps (contents_to_primitive obj)"

text \<open>
  \<^verbatim>\<open>globals()\<close> as \<^verbatim>\<open>deserialize\<close> uses it: the NamedTuple classes of the data model,
  each with its fields in declaration order, whether \<^verbatim>\<open>get_type_hints\<close> gives the field
  the type \<^verbatim>\<open>bytes\<close>, and whether it has a default (always \<^verbatim>\<open>None\<close>). The other
  names of the module are not modelled: looking one up is a KeyError here.
\<close>

definition class_fields :: "string \<Rightarrow> (string \<times> bool \<times> bool) list option" where
  "class_fields c =
     (if c = ''OutPoint'' then Some [(''txid'', False, False), (''txout_idx'', False, False)]
      else if c = ''TxIn'' then
        Some [(''to_spend'', False, False), (''unlock_sig'', True, False),
              (''unlock_pk'', True, False), (''sequence'', False, False)]
      else if c = ''TxOut'' then Some [(''value'', False, False), (''to_address'', False, False)]
      else if c = ''UnspentTxOut'' then
        Some [(''value'', False, False), (''to_address'', False, False),
              (''txid'', False, False), (''tx_idx'', False, False),
              (''is_coinbase'', False, False), (''height'', False, False)]
      else if c = ''Transaction'' then
        Some [(''txins'', False, False), (''txouts'', False, False), (''locktime'', False, True)]
      else if c = ''Block'' then
        Some [(''version'', False, False), (''prev_block_hash'', False, False),
              (''merkle_hash'', False, False), (''timestamp'', False, False),
              (''bits'', False, False), (''nonce'', False, False), (''txns'', False, False)]
      else None)"

definition bytes_keys :: "(string \<times> bool \<times> bool) list \<Rightarrow> string list" where
  "bytes_keys fs = map fst (filter (\<lambda>f. fst (snd f)) fs)"

fun unhex :: "string \<Rightarrow> bytes option" where
  "unhex [] = Some []"
| "unhex [c] = None"
| "unhex (c # d # r) =
     (case (hexval c, hexval d, unhex r) of
        (Some a, Some b, Some ws) \<Rightarrow> Some (of_nat (16 * a + b) # ws)
      | _ \<Rightarrow> None)"

text \<open>
  \<^verbatim>\<open>binascii.unhexlify\<close>: a string of hexadecimal digit pairs gives bytes, any other
  string raises \<^verbatim>\<open>binascii.Error\<close> (a ValueError), a value that is neither a string
  nor bytes raises TypeError.
\<close>

definition unhexlify :: "pyobj \<Rightarrow> exn + pyobj" where
  "unhexlify v =
     (case v of
        PStr s \<Rightarrow> (case unhex s of Some b \<Rightarrow> Inr (PBytes b) | None \<Rightarrow> Inl ValueError)
      | PBytes b \<Rightarrow>
          (case unhex (map (\<lambda>w. char_of (unat w)) b) of
             Some b' \<Rightarrow> Inr (PBytes b') | None \<Rightarrow> Inl ValueError)
      | _ \<Rightarrow> Inl TypeError)"

text \<open>A list comprehension over calls that may raise: the first exception wins.\<close>

fun sequence_list :: "(exn + 'a) list \<Rightarrow> exn + 'a list" where
  "sequence_list [] = Inr []"
| "sequence_list (r # rs) =
     (case r of
        Inl e \<Rightarrow> Inl e
      | Inr v \<Rightarrow> (case sequence_list rs of Inl e \<Rightarrow> Inl e | Inr vs \<Rightarrow> Inr (v # vs)))"

text \<open>
  The loop \<^verbatim>\<open>for k, v in o.items(): o[k] = contents_to_objs(v); if k in bytes_keys:
  o[k] = binascii.unhexlify(o[k])\<close>, given each value already converted.
\<close>

fun convert_items :: "string list \<Rightarrow> (string \<times> (exn + pyobj)) list \<Rightarrow> exn + (string \<times> pyobj) list"
  where
  "convert_items bk [] = Inr []"
| "convert_items bk ((k, r) # rest) =
     (case r of
        Inl e \<Rightarrow> Inl e
      | Inr v \<Rightarrow>
          (case (if k \<in> set bk then unhexlify v else Inr v) of
             Inl e \<Rightarrow> Inl e
           | Inr v' \<Rightarrow>
               (case convert_items bk rest of
                  Inl e \<Rightarrow> Inl e
                | Inr vs \<Rightarrow> Inr ((k, v') # vs))))"

text \<open>
  \<^verbatim>\<open>_type(**o)\<close>: a keyword that is not a field, or a field without default that is
  missing, is a TypeError.
\<close>

definition construct :: "string \<Rightarrow> (string \<times> bool \<times> bool) list \<Rightarrow> (string \<times> pyobj) list \<Rightarrow> exn + pyobj"
  where
  "construct c fs ps =
     (if list_ex (\<lambda>k. k \<notin> set (map fst fs)) (map fst ps) then Inl TypeError
      else if list_ex (\<lambda>f. \<not> snd (snd f) \<and> map_of ps (fst f) = None) fs then Inl TypeError
      else Inr (PNamed c
             (map (\<lambda>f. (fst f, case map_of ps (fst f) of Some v \<Rightarrow> v | None \<Rightarrow> PNone)) fs)))"

text \<open>
  The dictionary case of \<^verbatim>\<open>contents_to_objs\<close>: \<^verbatim>\<open>gs[o.pop('_type', None)]\<close>, the loop
  over the remaining items, the constructor call. A \<^verbatim>\<open>_type\<close> that is a list or a
  dictionary is unhashable (TypeError); any other value that is no class name is a
  KeyError.
\<close>

definition build_obj :: "(string \<times> json) list \<Rightarrow> (string \<times> (exn + pyobj)) list \<Rightarrow> exn + pyobj"
  where
  "build_obj raw conv =
     (case map_of raw ''_type'' of
        None \<Rightarrow> Inl KeyError
      | Some (JStr c) \<Rightarrow>
          (case class_fields c of
             None \<Rightarrow> Inl KeyError
           | Some fs \<Rightarrow>
               (case convert_items (bytes_keys fs) (filter (\<lambda>kv. fst kv \<noteq> ''_type'') conv) of
                  Inl e \<Rightarrow> Inl e
                | Inr ps \<Rightarrow> construct c fs ps))
      | Some (JList xs) \<Rightarrow> Inl TypeError
      | Some (JObj kvs) \<Rightarrow> Inl TypeError
      | Some _ \<Rightarrow> Inl KeyError)"

primrec contents_to_objs :: "json \<Rightarrow> exn + pyobj" where
  "contents_to_objs JNull = Inr PNone"
| "contents_to_objs (JBool b) = Inr (PBool b)"
| "contents_to_objs (JInt i) = Inr (PInt i)"
| "contents_to_objs (JStr s) = Inr (PStr s)"
| "contents_to_objs (JList xs) =
     (case sequence_list (map contents_to_objs xs) of Inl e \<Rightarrow> Inl e | Inr vs \<Rightarrow> Inr (PList vs))"
| "contents_to_objs (JObj kvs) = build_obj kvs (map (map_prod id contents_to_objs) kvs)"

text \<open>
  \<^verbatim>\<open>json.loads(json.dumps(d, sort_keys=True, ...))\<close>: the document \<open>d\<close> again, with
  the keys of every object in the order of the text, which is sorted.
\<close>

primrec json_reload :: "json \<Rightarrow> json" where
  "json_reload JNull = JNull"
| "json_reload (JBool b) = JBool b"
| "json_reload (JInt i) = JInt i"
| "json_reload (JStr s) = JStr s"
| "json_reload (JList xs) = JList (map json_reload xs)"
| "json_reload (JObj kvs) = JObj (sort_key fst (map (map_prod id json_reload) kvs))"

text \<open>
  \<^verbatim>\<open>deserialize\<close>, applied to the text that \<open>json_dumps doc\<close> prints:
  \<open>deserialize (contents_to_primitive x)\<close> is \<^verbatim>\<open>deserialize(serialize(x))\<close>.
\<close>

definition deserialize :: "json \<Rightarrow> exn + pyobj" where
  "deserialize doc = contents_to_objs (json_reload doc)"

text \<open>The typed values as Python sees them: instances of their NamedTuple classes.\<close>

definition obj_of_OutPoint :: "OutPoint \<Rightarrow> pyobj" where
  "obj_of_OutPoint p = PNamed ''OutPoint'' [(''txid'', PStr (txid p)), (''txout_idx'', PInt (txout_idx p))]"

definition obj_of_TxIn :: "TxIn \<Rightarrow> pyobj" where
  "obj_of_TxIn i =
     PNamed ''TxIn''
       [(''to_spend'', case to_spend i of None \<Rightarrow> PNone | Some p \<Rightarrow> obj_of_OutPoint p),
        (''unlock_sig'', PBytes (unlock_sig i)),
        (''unlock_pk'', case unlock_pk i of None \<Rightarrow> PNone | Some b \<Rightarrow> PBytes b),
        (''sequence'', PInt (sequence i))]"

definition obj_of_TxOut :: "TxOut \<Rightarrow> pyobj" where
  "obj_of_TxOut t = PNamed ''TxOut'' [(''value'', PInt (value t)), (''to_address'', PStr (to_address t))]"

definition obj_of_UnspentTxOut :: "UnspentTxOut \<Rightarrow> pyobj" where
  "obj_of_UnspentTxOut u =
     PNamed ''UnspentTxOut''
       [(''value'', PInt (utxo_value u)), (''to_address'', PStr (utxo_to_address u)),
        (''txid'', PStr (utxo_txid u)), (''tx_idx'', PInt (tx_idx u)),
        (''is_coinbase'', PBool (utxo_is_coinbase u)), (''height'', PInt (height u))]"

definition obj_of_Transaction :: "Transaction \<Rightarrow> pyobj" where
  "obj_of_Transaction t =
     PNamed ''Transaction''
       [(''txins'', PList (map obj_of_TxIn (txins t))),
        (''txouts'', PList (map obj_of_TxOut (txouts t))),
        (''locktime'', case locktime t of None \<Rightarrow> PNone | Some l \<Rightarrow> PInt l)]"

definition obj_of_Block :: "Block \<Rightarrow> pyobj" where
  "obj_of_Block b =
     PNamed ''Block''
       [(''version'', PInt (version b)),
        (''prev_block_hash'', case prev_block_hash b of None \<Rightarrow> PNone | Some h \<Rightarrow> PStr h),
        (''merkle_hash'', PStr (merkle_hash b)),
        (''timestamp'', PInt (timestamp b)),
        (''bits'', PInt (bits b)),
        (''nonce'', PInt (nonce b)),
        (''txns'', PList (map obj_of_Transaction (txns b)))]"

subsection \<open>Parameters and constants\<close>

text \<open>
  What the module takes from libraries: the double SHA-256 digest of a string as a
  number (\<^verbatim>\<open>hashlib\<close>), the clock (\<^verbatim>\<open>time.time()\<close>), the address of a public key
  (\<^verbatim>\<open>hashlib\<close> and \<^verbatim>\<open>base58\<close>), whether \<^verbatim>\<open>ecdsa.VerifyingKey.from_string\<close> accepts
  a key, and whether \<^verbatim>\<open>verify\<close> accepts a signature of a message under a key.
\<close>

record env =
  sha256d_digest :: "string \<Rightarrow> nat"
  time_now :: real
  pubkey_to_address :: "bytes \<Rightarrow> string"
  key_from_string :: "bytes \<Rightarrow> bool"
  ecdsa_verify :: "bytes \<Rightarrow> bytes \<Rightarrow> bytes \<Rightarrow> bool"

definition MAX_BLOCK_SERIALIZED_SIZE :: int where
  "MAX_BLOCK_SERIALIZED_SIZE = 1000000"

definition COINBASE_MATURITY :: int where
  "COINBASE_MATURITY = 2"

definition MAX_FUTURE_BLOCK_TIME :: int where
  "MAX_FUTURE_BLOCK_TIME = 60 * 60 * 2"

definition BELUSHIS_PER_COIN :: int where
  "BELUSHIS_PER_COIN = 100000000"

definition TOTAL_COINS :: int where
  "TOTAL_COINS = 21000000"

definition MAX_MONEY :: int where
  "MAX_MONEY = BELUSHIS_PER_COIN * TOTAL_COINS"

definition TIME_BETWEEN_BLOCKS_IN_SECS_TARGET :: int where
  "TIME_BETWEEN_BLOCKS_IN_SECS_TARGET = 1 * 60"

definition DIFFICULTY_PERIOD_IN_SECS_TARGET :: int where
  "DIFFICULTY_PERIOD_IN_SECS_TARGET = 60 * 60 * 10"

text \<open>
  In the source this is the quotient \<^verbatim>\<open>(60 * 60 * 10) / (1 * 60)\<close>, the float
  \<^verbatim>\<open>600.0\<close>: as a number it is 600, and an index computed from it is a float.
\<close>

definition DIFFICULTY_PERIOD_IN_BLOCKS :: int where
  "DIFFICULTY_PERIOD_IN_BLOCKS = DIFFICULTY_PERIOD_IN_SECS_TARGET div TIME_BETWEEN_BLOCKS_IN_SECS_TARGET"

definition INITIAL_DIFFICULTY_BITS :: int where
  "INITIAL_DIFFICULTY_BITS = 22"

definition ACTIVE_CHAIN_IDX :: int where
  "ACTIVE_CHAIN_IDX = 0"

subsection \<open>Hashes and identifiers\<close>

definition sha256d :: "env \<Rightarrow> string \<Rightarrow> string" where
  "sha256d env s = hexdigest (sha256d_digest env s)"

text \<open>\<^verbatim>\<open>int(s, 16)\<close> on a string of hexadecimal digits; ValueError otherwise.\<close>

fun int16_acc :: "nat \<Rightarrow> string \<Rightarrow> exn + nat" where
  "int16_acc a [] = Inr a"
| "int16_acc a (c # cs) =
     (case hexval c of None \<Rightarrow> Inl ValueError | Some d \<Rightarrow> int16_acc (16 * a + d) cs)"

definition py_int16 :: "string \<Rightarrow> exn + int" where
  "py_int16 s =
     (if s = [] then Inl ValueError
      else (case int16_acc 0 s of Inl e \<Rightarrow> Inl e | Inr n \<Rightarrow> Inr (int n)))"

definition Transaction_id :: "env \<Rightarrow> Transaction \<Rightarrow> string" where
  "Transaction_id env t = sha256d env (serialize (obj_of_Transaction t))"

text \<open>
  \<^verbatim>\<open>Block.header(nonce=None)\<close>: an f-string of the fields, \<^verbatim>\<open>None\<close> printed as
  \<^verbatim>\<open>None\<close>, and \<^verbatim>\<open>nonce or self.nonce\<close> for the nonce.
\<close>

definition header :: "Block \<Rightarrow> int option \<Rightarrow> string" where
  "header b n =
     py_str (version b) @ (case prev_block_hash b of None \<Rightarrow> ''None'' | Some h \<Rightarrow> h)
       @ merkle_hash b @ py_str (timestamp b) @ py_str (bits b)
       @ py_str (case n of None \<Rightarrow> nonce b | Some k \<Rightarrow> if k = 0 then nonce b else k)"

definition Block_id :: "env \<Rightarrow> Block \<Rightarrow> string" where
  "Block_id env b = sha256d env (header b None)"

subsection \<open>Merkle trees\<close>

datatype MerkleNode = MerkleNode (val: string) (children: "MerkleNode list option")

text \<open>
  \<^verbatim>\<open>_chunks(l, n)\<close>: the slices \<^verbatim>\<open>l[i:i + n]\<close> for \<^verbatim>\<open>i\<close> in \<^verbatim>\<open>range(0, len(l), n)\<close>. It is
  called with \<^verbatim>\<open>n = 2\<close> only (\<^verbatim>\<open>range\<close> refuses a step of 0).
\<close>

function chunks :: "'a list \<Rightarrow> nat \<Rightarrow> 'a list list" where
  "chunks l n = (if l = [] \<or> n = 0 then [] else take n l # chunks (drop n l) n)"
  by pat_completeness auto
termination
  by (relation "measure (\<lambda>(l, n). length l)") auto

declare chunks.simps [simp del]

text \<open>
  One element of the comprehension in \<^verbatim>\<open>find_root\<close>: the pattern \<^verbatim>\<open>[i1, i2]\<close> unpacks
  a chunk of exactly two nodes, and raises ValueError on any other.
\<close>

fun merkle_parent :: "env \<Rightarrow> MerkleNode list \<Rightarrow> exn + MerkleNode" where
  "merkle_parent env [i1, i2] = Inr (MerkleNode (sha256d env (val i1 @ val i2)) (Some [i1, i2]))"
| "merkle_parent env c = Inl ValueError"

definition newlevel :: "env \<Rightarrow> MerkleNode list \<Rightarrow> exn + MerkleNode list" where
  "newlevel env nodes = sequence_list (map (merkle_parent env) (chunks nodes 2))"

lemma chunks_Nil: "chunks [] n = []"
  by (simp add: chunks.simps)

lemma chunks_two: "chunks (x # y # r) 2 = [x, y] # chunks r 2"
  by (subst chunks.simps) simp

lemma chunks_one: "chunks [x] 2 = [[x]]"
  by (subst chunks.simps) (simp add: chunks_Nil)

lemma newlevel_length: "newlevel env nodes = Inr nl \<Longrightarrow> length nodes = 2 * length nl"
proof (induction nodes arbitrary: nl rule: induct_list012)
  case 1
  then show ?case by (simp add: newlevel_def chunks_Nil)
next
  case (2 x)
  then show ?case by (simp add: newlevel_def chunks_one)
next
  case (3 x y zs)
  then show ?case
    by (auto simp: newlevel_def chunks_two split: sum.splits)
qed

function find_root :: "env \<Rightarrow> MerkleNode list \<Rightarrow> exn + MerkleNode" where
  "find_root env nodes =
     (case newlevel env nodes of
        Inl e \<Rightarrow> Inl e
      | Inr nl \<Rightarrow>
          if length nl > 1 then find_root env nl
          else (case nl of [] \<Rightarrow> Inl IndexError | n # _ \<Rightarrow> Inr n))"
  by pat_completeness auto
termination
proof (relation "measure (\<lambda>(env, nodes). length nodes)")
  show "wf (measure (\<lambda>(env, nodes). length nodes))"
    by simp
next
  fix env :: env and nodes nl :: "MerkleNode list"
  assume "newlevel env nodes = Inr nl" and "1 < length nl"
  then have "length nodes = 2 * length nl" and "0 < length nl"
    by (auto dest: newlevel_length)
  then show "((env, nl), (env, nodes)) \<in> measure (\<lambda>(env, nodes). length nodes)"
    by simp
qed

declare find_root.simps [simp del]

definition get_merkle_root :: "env \<Rightarrow> string list \<Rightarrow> exn + MerkleNode" where
  "get_merkle_root env leaves =
     (let leaves' = (if length leaves mod 2 = 1 then leaves @ [last leaves] else leaves)
      in find_root env (map (\<lambda>l. MerkleNode (sha256d env l) None) leaves'))"

definition get_merkle_root_of_txns :: "env \<Rightarrow> Transaction list \<Rightarrow> exn + MerkleNode" where
  "get_merkle_root_of_txns env ts = get_merkle_root env (map (Transaction_id env) ts)"

subsection \<open>The node state\<close>

text \<open>
  The module-level variables. \<open>mempool\<close> is a dictionary whose iteration order
  matters, hence a list of items in insertion order. \<^verbatim>\<open>find_block\<close> has the default
  argument \<^verbatim>\<open>chain=active_chain\<close>, bound once to the list object that
  \<^verbatim>\<open>active_chain\<close> names when the module is loaded: \<open>detached_default\<close> is \<open>None\<close>
  while \<^verbatim>\<open>active_chain\<close> still names that object, and \<open>Some c\<close> once \<^verbatim>\<open>try_reorg\<close>
  has assigned a new list to \<^verbatim>\<open>active_chain\<close>, \<open>c\<close> being the old object's content.
\<close>

record state =
  active_chain :: "Block list"
  side_branches :: "Block list list"
  orphan_blocks :: "Block list"
  utxo_set :: "OutPoint \<Rightarrow> UnspentTxOut option"
  mempool :: "(string \<times> Transaction) list"
  detached_default :: "Block list option"

text \<open>\<^verbatim>\<open>d[k] = v\<close> and \<^verbatim>\<open>d.pop(k, None)\<close> on a dictionary kept in insertion order.\<close>

fun dict_set :: "'k \<Rightarrow> 'v \<Rightarrow> ('k \<times> 'v) list \<Rightarrow> ('k \<times> 'v) list" where
  "dict_set k v [] = [(k, v)]"
| "dict_set k v (p # ps) = (if fst p = k then (k, v) # ps else p # dict_set k v ps)"

definition dict_pop :: "'k \<Rightarrow> ('k \<times> 'v) list \<Rightarrow> ('k \<times> 'v) list" where
  "dict_pop k d = filter (\<lambda>p. fst p \<noteq> k) d"

definition get_current_height :: "state \<Rightarrow> int" where
  "get_current_height st = int (length (active_chain st))"

definition default_chain :: "state \<Rightarrow> Block list" where
  "default_chain st = (case detached_default st of None \<Rightarrow> active_chain st | Some c \<Rightarrow> c)"

text \<open>The two loops of \<^verbatim>\<open>find_block\<close>; \<open>None\<close> is the result \<^verbatim>\<open>(None, None, None)\<close>.\<close>

fun find_in_chain :: "env \<Rightarrow> string option \<Rightarrow> Block list \<Rightarrow> int \<Rightarrow> (Block \<times> int) option" where
  "find_in_chain env h [] k = None"
| "find_in_chain env h (b # bs) k =
     (if Some (Block_id env b) = h then Some (b, k) else find_in_chain env h bs (k + 1))"

fun find_in_chains :: "env \<Rightarrow> string option \<Rightarrow> Block list list \<Rightarrow> int \<Rightarrow> (Block \<times> int \<times> int) option"
  where
  "find_in_chains env h [] ci = None"
| "find_in_chains env h (c # cs) ci =
     (case find_in_chain env h c 0 of
        Some (b, k) \<Rightarrow> Some (b, k, ci)
      | None \<Rightarrow> find_in_chains env h cs (ci + 1))"

text \<open>
  \<^verbatim>\<open>find_block(block_hash, chain)\<close>: \<open>chain\<close> is \<open>None\<close> for the call with \<^verbatim>\<open>chain=None\<close>
  and \<open>Some (default_chain st)\<close> for the call that leaves the argument out.
\<close>

definition find_block :: "env \<Rightarrow> state \<Rightarrow> string option \<Rightarrow> Block list option \<Rightarrow> (Block \<times> int \<times> int) option"
  where
  "find_block env st block_hash chain =
     (let chains =
        (case chain of
           Some c \<Rightarrow> if c \<noteq> [] then [c] else active_chain st # side_branches st
         | None \<Rightarrow> active_chain st # side_branches st)
      in find_in_chains env block_hash chains 0)"

definition get_median_time_past :: "state \<Rightarrow> nat \<Rightarrow> int" where
  "get_median_time_past st num_last_blocks =
     (let last_n_blocks = take num_last_blocks (rev (active_chain st)) in
      if last_n_blocks = [] then 0
      else timestamp (last_n_blocks ! (length last_n_blocks div 2)))"

subsection \<open>Proof of work\<close>

text \<open>
  \<^verbatim>\<open>get_next_work_required\<close>. A block that is not found leaves \<^verbatim>\<open>prev_height\<close> at
  \<^verbatim>\<open>None\<close>, and \<^verbatim>\<open>prev_height + 1\<close> is a TypeError. The index
  \<^verbatim>\<open>max(prev_height - (DIFFICULTY_PERIOD_IN_BLOCKS - 1), 0)\<close> is the integer 0 when the
  difference is negative and a float otherwise (\<^verbatim>\<open>max\<close> returns its first argument on a
  tie), and a float index into a list is a TypeError.
\<close>

definition get_next_work_required :: "env \<Rightarrow> state \<Rightarrow> string option \<Rightarrow> exn + int" where
  "get_next_work_required env st prev_hash =
     (if prev_hash = None \<or> prev_hash = Some [] then Inr INITIAL_DIFFICULTY_BITS
      else
        (case find_block env st prev_hash None of
           None \<Rightarrow> Inl TypeError
         | Some (prev_block, prev_height, _) \<Rightarrow>
             if (prev_height + 1) mod DIFFICULTY_PERIOD_IN_BLOCKS \<noteq> 0 then Inr (bits prev_block)
             else if prev_height - (DIFFICULTY_PERIOD_IN_BLOCKS - 1) \<ge> 0 then Inl TypeError
             else
               (case active_chain st of
                  [] \<Rightarrow> Inl IndexError
                | period_start_block # _ \<Rightarrow>
                    (let actual_time_taken = timestamp prev_block - timestamp period_start_block in
                     if actual_time_taken < DIFFICULTY_PERIOD_IN_SECS_TARGET
                     then Inr (bits prev_block + 1)
                     else if actual_time_taken > DIFFICULTY_PERIOD_IN_SECS_TARGET
                     then Inr (bits prev_block - 1)
                     else Inr (bits prev_block)))))"

subsection \<open>Validation\<close>

text \<open>\<^verbatim>\<open>Transaction.validate_basics\<close>.\<close>

definition validate_basics :: "Transaction \<Rightarrow> bool \<Rightarrow> exn + unit" where
  "validate_basics t as_coinbase =
     (if txouts t = [] \<or> (txins t = [] \<and> \<not> as_coinbase)
      then Inl (TxnValidationError ''Missing txouts or txins'' None)
      else if int (length (serialize (obj_of_Transaction t))) > MAX_BLOCK_SERIALIZED_SIZE
      then Inl (TxnValidationError ''Too large'' None)
      else if sum_list (map value (txouts t)) > MAX_MONEY
      then Inl (TxnValidationError ''Spend value too high'' None)
      else Inr ())"

definition build_spend_message :: "env \<Rightarrow> OutPoint option \<Rightarrow> bytes \<Rightarrow> int \<Rightarrow> TxOut list \<Rightarrow> bytes" where
  "build_spend_message env spend pk sq outs =
     encode (sha256d env
       (serialize (case spend of None \<Rightarrow> PNone | Some p \<Rightarrow> obj_of_OutPoint p) @ py_str sq
          @ hexlify pk @ serialize (PList (map obj_of_TxOut outs))))"

text \<open>
  \<^verbatim>\<open>validate_signature_for_spend\<close>. A key that is \<^verbatim>\<open>None\<close> makes \<^verbatim>\<open>hashlib.sha256\<close>
  raise TypeError; a key that \<^verbatim>\<open>from_string\<close> refuses raises the library's error,
  outside the \<^verbatim>\<open>try\<close>; a signature that does not verify raises inside it.
\<close>

definition validate_signature_for_spend :: "env \<Rightarrow> TxIn \<Rightarrow> UnspentTxOut \<Rightarrow> Transaction \<Rightarrow> exn + bool"
  where
  "validate_signature_for_spend env txin utxo txn =
     (case unlock_pk txin of
        None \<Rightarrow> Inl TypeError
      | Some pk \<Rightarrow>
          (let pubkey_as_addr = pubkey_to_address env pk in
           if \<not> key_from_string env pk then Inl LibraryError
           else if pubkey_as_addr \<noteq> utxo_to_address utxo
           then Inl (TxUnlockError ''Pubkey doesn't match'')
           else if \<not> ecdsa_verify env pk (unlock_sig txin)
                      (build_spend_message env (to_spend txin) pk (sequence txin) (txouts txn))
           then Inl (TxUnlockError ''Signature doesn't match'')
           else Inr True))"

text \<open>
  \<^verbatim>\<open>UnspentTxOut.from_mempool_txn(txn)\<close>, by what it is given. A string has no
  attribute \<^verbatim>\<open>txouts\<close>; for a transaction, \<^verbatim>\<open>cls(**i, ...)\<close> unpacks a \<^verbatim>\<open>TxOut\<close>, which
  is no mapping, so the comprehension raises TypeError at the first output.
\<close>

definition from_mempool_txn :: "string + Transaction \<Rightarrow> exn + UnspentTxOut list" where
  "from_mempool_txn txn =
     (case txn of
        Inl s \<Rightarrow> Inl AttributeError
      | Inr t \<Rightarrow> if txouts t = [] then Inr [] else Inl TypeError)"

text \<open>
  \<^verbatim>\<open>find_utxo_in_mempool\<close>; it passes \<^verbatim>\<open>found_in_mempool.id\<close>, a string, to
  \<^verbatim>\<open>from_mempool_txn\<close>.
\<close>

definition find_utxo_in_mempool :: "env \<Rightarrow> state \<Rightarrow> TxIn \<Rightarrow> exn + UnspentTxOut option" where
  "find_utxo_in_mempool env st txin =
     (case to_spend txin of
        None \<Rightarrow> Inl AttributeError
      | Some p \<Rightarrow>
          (let tx_to_spend_hash = txid p; idx = txout_idx p in
           case map_of (mempool st) tx_to_spend_hash of
             None \<Rightarrow> Inr None
           | Some found_in_mempool \<Rightarrow>
               (case from_mempool_txn (Inl (Transaction_id env found_in_mempool)) of
                  Inl e \<Rightarrow> Inl e
                | Inr found_utxos \<Rightarrow>
                    (let n = int (length found_utxos); j = (if idx < 0 then n + idx else idx) in
                     if 0 \<le> j \<and> j < n then Inr (Some (found_utxos ! nat j)) else Inr None))))"

text \<open>
  The loop of \<^verbatim>\<open>validate_txn\<close> over the inputs, from input \<open>i\<close> on, with
  \<^verbatim>\<open>available_to_spend\<close> so far.
\<close>

fun validate_txins :: "env \<Rightarrow> state \<Rightarrow> Transaction \<Rightarrow> bool \<Rightarrow> TxIn list \<Rightarrow> int \<Rightarrow> int \<Rightarrow> exn + int"
  where
  "validate_txins env st txn allow [] i available_to_spend = Inr available_to_spend"
| "validate_txins env st txn allow (txin # rest) i available_to_spend =
     (case (case (case to_spend txin of None \<Rightarrow> None | Some p \<Rightarrow> utxo_set st p) of
              Some u \<Rightarrow> Inr (Some u)
            | None \<Rightarrow> if allow then find_utxo_in_mempool env st txin else Inr None) of
        Inl e \<Rightarrow> Inl e
      | Inr None \<Rightarrow>
          Inl (TxnValidationError
                 (''Could find no UTXO for TxIn['' @ py_str i @ ''] -- orphaning txn'') (Some txn))
      | Inr (Some utxo) \<Rightarrow>
          if utxo_is_coinbase utxo \<and> get_current_height st - height utxo < COINBASE_MATURITY
          then Inl (TxnValidationError ''Coinbase UTXO not ready for spend'' None)
          else
            (case validate_signature_for_spend env txin utxo txn of
               Inl (TxUnlockError m) \<Rightarrow>
                 Inl (TxnValidationError ''<txin> is not a valid spend of <utxo>'' None)
             | Inl e \<Rightarrow> Inl e
             | Inr _ \<Rightarrow>
                 validate_txins env st txn allow rest (i + 1) (available_to_spend + utxo_value utxo)))"

text \<open>\<^verbatim>\<open>validate_txn\<close>, for an argument that is a \<^verbatim>\<open>Transaction\<close>.\<close>

definition validate_txn :: "env \<Rightarrow> state \<Rightarrow> Transaction \<Rightarrow> bool \<Rightarrow> bool \<Rightarrow> exn + Transaction" where
  "validate_txn env st txn as_coinbase allow_utxo_from_mempool =
     (case validate_basics txn as_coinbase of
        Inl e \<Rightarrow> Inl e
      | Inr _ \<Rightarrow>
          (case validate_txins env st txn allow_utxo_from_mempool (txins txn) 0 0 of
             Inl e \<Rightarrow> Inl e
           | Inr available_to_spend \<Rightarrow>
               if available_to_spend < sum_list (map value (txouts txn))
               then Inl (TxnValidationError ''Spend value is more than available'' None)
               else Inr txn))"

text \<open>The indices \<^verbatim>\<open>[i for (i, tx) in enumerate(block.txns) if tx.is_coinbase]\<close>.\<close>

definition coinbase_indices :: "Transaction list \<Rightarrow> nat list" where
  "coinbase_indices ts = filter (\<lambda>i. is_coinbase (ts ! i)) [0..<length ts]"

text \<open>The loop \<^verbatim>\<open>for i, txn in enumerate(block.txns): txn.validate_basics(as_coinbase=(i == 0))\<close>.\<close>

fun validate_all_basics :: "Transaction list \<Rightarrow> nat \<Rightarrow> exn + unit" where
  "validate_all_basics [] i = Inr ()"
| "validate_all_basics (t # ts) i =
     (case validate_basics t (i = 0) of Inl e \<Rightarrow> Inl e | Inr _ \<Rightarrow> validate_all_basics ts (i + 1))"

text \<open>
  The loop \<^verbatim>\<open>for txn in block.txns[1:]: validate_txn(txn, allow_utxo_from_mempool=False)\<close>
  with its handler: a TxnValidationError becomes a BlockValidationError, any other
  exception goes on.
\<close>

fun validate_block_txns :: "env \<Rightarrow> state \<Rightarrow> Transaction list \<Rightarrow> exn + unit" where
  "validate_block_txns env st [] = Inr ()"
| "validate_block_txns env st (t # ts) =
     (case validate_txn env st t False False of
        Inl (TxnValidationError m orph) \<Rightarrow> Inl (BlockValidationError ''<txn> failed to validate'' None)
      | Inl e \<Rightarrow> Inl e
      | Inr _ \<Rightarrow> validate_block_txns env st ts)"

text \<open>
  \<^verbatim>\<open>validate_block\<close>, for an argument that is a \<^verbatim>\<open>Block\<close>. \<^verbatim>\<open>1 << (256 - block.bits)\<close>
  raises ValueError when the shift count is negative.
\<close>

definition validate_block :: "env \<Rightarrow> state \<Rightarrow> Block \<Rightarrow> exn + (Block \<times> int)" where
  "validate_block env st block =
     (if txns block = [] then Inl (BlockValidationError ''txns empty'' None)
      else if real_of_int (timestamp block) - time_now env > real_of_int MAX_FUTURE_BLOCK_TIME
      then Inl (BlockValidationError ''Block timestamp too far in future'' None)
      else
        (case py_int16 (Block_id env block) of
           Inl e \<Rightarrow> Inl e
         | Inr h \<Rightarrow>
        if 256 - bits block < 0 then Inl ValueError
        else if h > 2 ^ nat (256 - bits block)
        then Inl (BlockValidationError ''Block header doesn't satisfy bits'' None)
        else if coinbase_indices (txns block) \<noteq> [0]
        then Inl (BlockValidationError ''First txn must be coinbase and no more'' None)
        else
          (case validate_all_basics (txns block) 0 of
             Inl (TxnValidationError m orph) \<Rightarrow> Inl (BlockValidationError ''Invalid txn {txn.id}'' None)
           | Inl e \<Rightarrow> Inl e
           | Inr _ \<Rightarrow>
          (case get_merkle_root_of_txns env (txns block) of
             Inl e \<Rightarrow> Inl e
           | Inr merkle_root \<Rightarrow>
          if val merkle_root \<noteq> merkle_hash block
          then Inl (BlockValidationError ''Merkle hash invalid'' None)
          else
          (case get_next_work_required env st (prev_block_hash block) of
             Inl e \<Rightarrow> Inl e
           | Inr required \<Rightarrow>
          if required \<noteq> bits block then Inl (BlockValidationError ''bits is incorrect'' None)
          else if timestamp block \<le> get_median_time_past st 11
          then Inl (BlockValidationError ''timestamp too old'' None)
          else if (prev_block_hash block = None \<or> prev_block_hash block = Some [])
                  \<and> active_chain st = []
          then (case validate_block_txns env st (tl (txns block)) of
                  Inl e \<Rightarrow> Inl e
                | Inr _ \<Rightarrow> Inr (block, ACTIVE_CHAIN_IDX))
          else
            (case find_block env st (prev_block_hash block) None of
               None \<Rightarrow>
                 Inl (BlockValidationError ''prev block <hash> not found in any chain'' (Some block))
             | Some (prev_block, prev_block_height, prev_block_chain_idx) \<Rightarrow>
                 if prev_block_chain_idx \<noteq> ACTIVE_CHAIN_IDX then Inr (block, prev_block_chain_idx)
                 else if prev_block \<noteq> last (active_chain st)
                 then Inr (block, prev_block_chain_idx + 1)
                 else (case validate_block_txns env st (tl (txns block)) of
                         Inl e \<Rightarrow> Inl e
                       | Inr _ \<Rightarrow> Inr (block, prev_block_chain_idx))))))))"

subsection \<open>The chain\<close>

definition genesis_block :: Block where
  "genesis_block =
     \<lparr>version = 0,
      prev_block_hash = None,
      merkle_hash = ''dfef8eb972026bbe9e98b26616fe90e60e3ff223d0a596e78bde6632109d7ef0'',
      timestamp = 1501396299,
      bits = 26,
      nonce = 1845989,
      txns = [\<lparr>txins = [],
               txouts = [\<lparr>value = 5000000000, to_address = ''143UVyz7ooiAv1pMqbwPPpnH4BV9ifJGFF''\<rparr>],
               locktime = None\<rparr>]\<rparr>"

text \<open>
  \<^verbatim>\<open>xs[i]\<close> for an integer \<open>i\<close>: the position read, or \<open>None\<close> for an IndexError.
\<close>

definition py_index :: "'a list \<Rightarrow> int \<Rightarrow> nat option" where
  "py_index xs i =
     (let n = int (length xs); j = (if i < 0 then n + i else i) in
      if 0 \<le> j \<and> j < n then Some (nat j) else None)"

definition add_to_utxo :: "env \<Rightarrow> TxOut \<Rightarrow> Transaction \<Rightarrow> int \<Rightarrow> bool \<Rightarrow> int \<Rightarrow> state \<Rightarrow> state" where
  "add_to_utxo env txout tx idx is_cb h st =
     (let utxo = \<lparr>utxo_value = value txout, utxo_to_address = to_address txout,
                  utxo_txid = Transaction_id env tx, tx_idx = idx, utxo_is_coinbase = is_cb,
                  height = h\<rparr>
      in st\<lparr>utxo_set := (utxo_set st)(outpoint utxo \<mapsto> utxo)\<rparr>)"

text \<open>\<^verbatim>\<open>rm_from_utxo\<close>: \<^verbatim>\<open>del\<close> of a key that is absent is a KeyError.\<close>

definition rm_from_utxo :: "string \<Rightarrow> int \<Rightarrow> state \<Rightarrow> exn + state" where
  "rm_from_utxo t i st =
     (case utxo_set st \<lparr>txid = t, txout_idx = i\<rparr> of
        None \<Rightarrow> Inl KeyError
      | Some _ \<Rightarrow> Inr (st\<lparr>utxo_set := (utxo_set st)(\<lparr>txid = t, txout_idx = i\<rparr> := None)\<rparr>))"

text \<open>
  \<^verbatim>\<open>reorg_if_necessary\<close>. The loop, from one side branch on. An empty branch has no
  \<^verbatim>\<open>chain[0]\<close>; a fork block that is not found leaves \<^verbatim>\<open>fork_idx\<close> at \<^verbatim>\<open>None\<close>, and
  \<^verbatim>\<open>len(chain) + fork_idx\<close> is a TypeError; the call \<^verbatim>\<open>try_reorg(chain)\<close> gives one
  argument to a function of three parameters, a TypeError before its body runs. So
  the state never changes.
\<close>

fun reorg_loop :: "env \<Rightarrow> state \<Rightarrow> Block list list \<Rightarrow> bool \<Rightarrow> exn + bool" where
  "reorg_loop env st [] reorged = Inr reorged"
| "reorg_loop env st (chain # rest) reorged =
     (case chain of
        [] \<Rightarrow> Inl IndexError
      | b # _ \<Rightarrow>
          (case find_block env st (prev_block_hash b) (Some (default_chain st)) of
             None \<Rightarrow> Inl TypeError
           | Some (fork_block, fork_idx, _) \<Rightarrow>
               (let active_height = int (length (active_chain st));
                    branch_height = int (length chain) + fork_idx
                in if branch_height > active_height then Inl TypeError
                   else reorg_loop env st rest reorged)))"

definition reorg_if_necessary :: "env \<Rightarrow> state \<Rightarrow> exn + bool" where
  "reorg_if_necessary env st = reorg_loop env st (side_branches st) False"

text \<open>
  The loop of \<^verbatim>\<open>try_reorg\<close> over the branch: a BlockValidationError restores
  \<^verbatim>\<open>active_chain[:fork_idx] + old_active_branch\<close> and returns \<^verbatim>\<open>False\<close>; any other
  exception leaves the function; a valid block is appended.
\<close>

fun reorg_blocks :: "env \<Rightarrow> state \<Rightarrow> Block list \<Rightarrow> int \<Rightarrow> Block list \<Rightarrow> (exn + bool) \<times> state" where
  "reorg_blocks env st [] fork_idx old_active_branch = (Inr True, st)"
| "reorg_blocks env st (block # rest) fork_idx old_active_branch =
     (case validate_block env st block of
        Inl (BlockValidationError m orph) \<Rightarrow>
          (Inr False, st\<lparr>active_chain := slice_to (active_chain st) fork_idx @ old_active_branch\<rparr>)
      | Inl e \<Rightarrow> (Inl e, st)
      | Inr _ \<Rightarrow>
          reorg_blocks env (st\<lparr>active_chain := active_chain st @ [block]\<rparr>) rest fork_idx
            old_active_branch)"

text \<open>\<^verbatim>\<open>for txn_id in mempool_mods['rm']: mempool.pop(txn_id)\<close>: no default, so KeyError.\<close>

fun mempool_rm :: "string list \<Rightarrow> state \<Rightarrow> exn option \<times> state" where
  "mempool_rm [] st = (None, st)"
| "mempool_rm (k # ks) st =
     (case map_of (mempool st) k of
        None \<Rightarrow> (Some KeyError, st)
      | Some _ \<Rightarrow> mempool_rm ks (st\<lparr>mempool := dict_pop k (mempool st)\<rparr>))"

definition try_reorg :: "env \<Rightarrow> state \<Rightarrow> Block list \<Rightarrow> int \<Rightarrow> int \<Rightarrow> (exn + bool) \<times> state" where
  "try_reorg env st branch branch_idx fork_idx =
     (let old_active_branch = slice_from (active_chain st) (fork_idx + 1);
          st1 = st\<lparr>active_chain := slice_to (active_chain st) fork_idx @ branch,
                   detached_default := Some (default_chain st)\<rparr>;
          add = fold (\<lambda>t d. dict_set (Transaction_id env t) t d) (concat (map txns branch)) [];
          rm = map (Transaction_id env) (concat (map txns old_active_branch))
      in case reorg_blocks env st1 branch fork_idx old_active_branch of
           (Inl e, st2) \<Rightarrow> (Inl e, st2)
         | (Inr False, st2) \<Rightarrow> (Inr False, st2)
         | (Inr True, st2) \<Rightarrow>
             (case py_index (side_branches st2) branch_idx of
                None \<Rightarrow> (Inl IndexError, st2)
              | Some j \<Rightarrow>
                  (let st3 = st2\<lparr>side_branches :=
                               take j (side_branches st2) @ drop (Suc j) (side_branches st2)
                                 @ [old_active_branch]\<rparr>
                   in case mempool_rm rm st3 of
                        (Some e, st4) \<Rightarrow> (Inl e, st4)
                      | (None, st4) \<Rightarrow>
                          (let st5 = st4\<lparr>mempool := fold (\<lambda>kv d. dict_set (fst kv) (snd kv) d) add
                                                      (mempool st4)\<rparr>
                           in if active_chain st5 = [] then (Inl IndexError, st5)
                              else (Inr True, st5)))))"

subsection \<open>Connecting a block\<close>

text \<open>\<^verbatim>\<open>for txin in tx.txins: rm_from_utxo(*txin.to_spend)\<close>; unpacking \<^verbatim>\<open>None\<close> is a TypeError.\<close>

fun connect_txins :: "TxIn list \<Rightarrow> state \<Rightarrow> exn option \<times> state" where
  "connect_txins [] st = (None, st)"
| "connect_txins (txin # rest) st =
     (case to_spend txin of
        None \<Rightarrow> (Some TypeError, st)
      | Some p \<Rightarrow>
          (case rm_from_utxo (txid p) (txout_idx p) st of
             Inl e \<Rightarrow> (Some e, st)
           | Inr st' \<Rightarrow> connect_txins rest st'))"

text \<open>\<^verbatim>\<open>for i, txout in enumerate(tx.txouts): add_to_utxo(txout, tx, i, tx.is_coinbase, len(chain))\<close>.\<close>

fun connect_txouts :: "env \<Rightarrow> Transaction \<Rightarrow> int \<Rightarrow> TxOut list \<Rightarrow> int \<Rightarrow> state \<Rightarrow> state" where
  "connect_txouts env tx h [] i st = st"
| "connect_txouts env tx h (txout # rest) i st =
     connect_txouts env tx h rest (i + 1) (add_to_utxo env txout tx i (is_coinbase tx) h st)"

text \<open>The loop \<^verbatim>\<open>for tx in block.txns\<close> of \<^verbatim>\<open>connect_block\<close>; \<open>h\<close> is \<^verbatim>\<open>len(chain)\<close>.\<close>

fun connect_txns :: "env \<Rightarrow> int \<Rightarrow> Transaction list \<Rightarrow> state \<Rightarrow> exn option \<times> state" where
  "connect_txns env h [] st = (None, st)"
| "connect_txns env h (tx # rest) st =
     (let st1 = st\<lparr>mempool := dict_pop (Transaction_id env tx) (mempool st)\<rparr> in
      case (if \<not> is_coinbase tx then connect_txins (txins tx) st1 else (None, st1)) of
        (Some e, st2) \<Rightarrow> (Some e, st2)
      | (None, st2) \<Rightarrow> connect_txns env h rest (connect_txouts env tx h (txouts tx) 0 st2))"

text \<open>
  \<^verbatim>\<open>chain = idx_to_chain(chain_idx); chain.append(block)\<close>: the state after the append
  and \<^verbatim>\<open>len(chain)\<close>, or IndexError when \<^verbatim>\<open>side_branches[idx - 1]\<close> does not exist.
\<close>

definition append_to_chain :: "state \<Rightarrow> int \<Rightarrow> Block \<Rightarrow> exn + (state \<times> int)" where
  "append_to_chain st idx block =
     (if idx = ACTIVE_CHAIN_IDX
      then Inr (st\<lparr>active_chain := active_chain st @ [block]\<rparr>, int (length (active_chain st)) + 1)
      else
        (case py_index (side_branches st) (idx - 1) of
           None \<Rightarrow> Inl IndexError
         | Some j \<Rightarrow>
             Inr (st\<lparr>side_branches := (side_branches st)[j := side_branches st ! j @ [block]]\<rparr>,
                  int (length (side_branches st ! j)) + 1)))"

text \<open>
  \<^verbatim>\<open>connect_block\<close>, for an argument that is a \<^verbatim>\<open>Block\<close>: the value returned (\<open>None\<close>
  for \<^verbatim>\<open>None\<close>) or the exception raised, and the state left behind.
\<close>

definition connect_block :: "env \<Rightarrow> state \<Rightarrow> Block \<Rightarrow> (exn + int option) \<times> state" where
  "connect_block env st block =
     (case validate_block env st block of
        Inl (BlockValidationError m orph) \<Rightarrow>
          (Inr None,
           case orph of None \<Rightarrow> st | Some b \<Rightarrow> st\<lparr>orphan_blocks := orphan_blocks st @ [b]\<rparr>)
      | Inl e \<Rightarrow> (Inl e, st)
      | Inr (block', chain_idx) \<Rightarrow>
          if find_block env st (Some (Block_id env block')) (Some (default_chain st)) \<noteq> None
          then (Inr None, st)
          else
            (case append_to_chain st chain_idx block' of
               Inl e \<Rightarrow> (Inl e, st)
             | Inr (st1, h) \<Rightarrow>
                 (case connect_txns env h (txns block') st1 of
                    (Some e, st2) \<Rightarrow> (Inl e, st2)
                  | (None, st2) \<Rightarrow>
                      (case reorg_if_necessary env st2 of
                         Inl e \<Rightarrow> (Inl e, st2)
                       | Inr _ \<Rightarrow> (Inr (Some chain_idx), st2)))))"

subsection \<open>Filling a block from the mempool\<close>

text \<open>
  \<^verbatim>\<open>check_block_size(b)\<close> is a closure: it measures \<^verbatim>\<open>block\<close>, the variable of
  \<^verbatim>\<open>select_from_mempool\<close> (here \<open>outer\<close>, which can be \<^verbatim>\<open>None\<close>), not its argument.
\<close>

definition check_block_size :: "Block option \<Rightarrow> Block option \<Rightarrow> bool" where
  "check_block_size outer b =
     (int (length (serialize (case outer of None \<Rightarrow> PNone | Some blk \<Rightarrow> obj_of_Block blk)))
        < MAX_BLOCK_SERIALIZED_SIZE)"

text \<open>
  The loop over \<^verbatim>\<open>tx.txins\<close> in \<^verbatim>\<open>add_to_block\<close>: \<open>Inr True\<close> when it runs to its end,
  \<open>Inr False\<close> for \<^verbatim>\<open>return None\<close>. The recursive call \<^verbatim>\<open>add_to_block(in_mempool.txid)\<close>
  gives one argument to a function of two parameters, a TypeError.
\<close>

fun add_to_block_txins :: "env \<Rightarrow> state \<Rightarrow> TxIn list \<Rightarrow> exn + bool" where
  "add_to_block_txins env st [] = Inr True"
| "add_to_block_txins env st (txin # rest) =
     (if (case to_spend txin of None \<Rightarrow> False | Some p \<Rightarrow> utxo_set st p \<noteq> None)
      then add_to_block_txins env st rest
      else
        (case find_utxo_in_mempool env st txin of
           Inl e \<Rightarrow> Inl e
         | Inr None \<Rightarrow> Inr False
         | Inr (Some in_mempool) \<Rightarrow> Inl TypeError))"

text \<open>
  \<^verbatim>\<open>add_to_block(block, txid)\<close>: the block returned (\<open>None\<close> for \<^verbatim>\<open>None\<close>) and the set
  \<^verbatim>\<open>added_to_block\<close> afterwards.
\<close>

definition add_to_block :: "env \<Rightarrow> state \<Rightarrow> Block option \<Rightarrow> string set \<Rightarrow> Block option \<Rightarrow> string \<Rightarrow> exn + (Block option \<times> string set)"
  where
  "add_to_block env st outer added_to_block block t =
     (if t \<in> added_to_block then Inr (block, added_to_block)
      else
        (case map_of (mempool st) t of
           None \<Rightarrow> Inl KeyError
         | Some tx \<Rightarrow>
             (case add_to_block_txins env st (txins tx) of
                Inl e \<Rightarrow> Inl e
              | Inr False \<Rightarrow> Inr (None, added_to_block)
              | Inr True \<Rightarrow>
                  (case block of
                     None \<Rightarrow> Inl AttributeError
                   | Some b \<Rightarrow>
                       (let newblock = b\<lparr>txns := txns b @ [tx]\<rparr> in
                        if check_block_size outer (Some newblock)
                        then Inr (Some newblock, insert t added_to_block)
                        else Inr (Some b, added_to_block))))))"

text \<open>The loop \<^verbatim>\<open>for txid in mempool\<close> of \<^verbatim>\<open>select_from_mempool\<close>.\<close>

fun select_loop :: "env \<Rightarrow> state \<Rightarrow> string list \<Rightarrow> Block option \<Rightarrow> string set \<Rightarrow> exn + Block option" where
  "select_loop env st [] block added_to_block = Inr block"
| "select_loop env st (t # rest) block added_to_block =
     (case add_to_block env st block added_to_block block t of
        Inl e \<Rightarrow> Inl e
      | Inr (newblock, added') \<Rightarrow>
          if check_block_size block newblock then select_loop env st rest newblock added'
          else Inr block)"

definition select_from_mempool :: "env \<Rightarrow> state \<Rightarrow> Block \<Rightarrow> exn + Block option" where
  "select_from_mempool env st block = select_loop env st (map fst (mempool st)) (Some block) {}"

subsection \<open>The state of a node that has just started\<close>

text \<open>The module-level initial values: empty chain, side branches, UTXO set and mempool.\<close>

definition initial_state :: state where
  "initial_state =
     \<lparr>active_chain = [], side_branches = [], orphan_blocks = [], utxo_set = Map.empty,
      mempool = [], detached_default = None\<rparr>"

section \<open>Example inputs\<close>

subsection \<open>A side branch higher than the active chain\<close>

text \<open>
  An active chain of one block and a side branch of two blocks that forks from it:
  the branch is higher than the active chain.
\<close>

definition fork_branch :: "env \<Rightarrow> Block list" where
  "fork_branch env =
     [genesis_block\<lparr>prev_block_hash := Some (Block_id env genesis_block), nonce := 1\<rparr>,
      genesis_block\<lparr>prev_block_hash :=
        Some (Block_id env (genesis_block\<lparr>prev_block_hash := Some (Block_id env genesis_block),
                                            nonce := 1\<rparr>)), nonce := 2\<rparr>]"

definition fork_state :: "env \<Rightarrow> state" where
  "fork_state env =
     \<lparr>active_chain = [genesis_block], side_branches = [fork_branch env], orphan_blocks = [],
      utxo_set = Map.empty, mempool = [], detached_default = None\<rparr>"

subsection \<open>A candidate branch that fails validation\<close>

text \<open>
  An active chain of two blocks, and a candidate branch whose only block has no
  transactions, so that \<^verbatim>\<open>validate_block\<close> rejects it at its first check.
\<close>

definition stale_tip :: Block where
  "stale_tip = genesis_block\<lparr>prev_block_hash := Some ''00'', nonce := 7\<rparr>"

definition empty_block :: Block where
  "empty_block = genesis_block\<lparr>prev_block_hash := Some ''00'', txns := []\<rparr>"

definition two_block_state :: state where
  "two_block_state =
     \<lparr>active_chain = [genesis_block, stale_tip], side_branches = [[empty_block]],
      orphan_blocks = [], utxo_set = Map.empty, mempool = [], detached_default = None\<rparr>"

subsection \<open>A transaction that spends an output of the mempool\<close>

text \<open>
  A transaction in the mempool, and a second transaction that spends its output 0.
\<close>

definition parent_txn :: Transaction where
  "parent_txn =
     \<lparr>txins = [\<lparr>to_spend = Some \<lparr>txid = ''00'', txout_idx = 0\<rparr>, unlock_sig = [],
               unlock_pk = Some [], sequence = 0\<rparr>],
      txouts = [\<lparr>value = 10, to_address = ''a''\<rparr>],
      locktime = None\<rparr>"

definition child_txn :: "env \<Rightarrow> Transaction" where
  "child_txn env =
     \<lparr>txins = [\<lparr>to_spend = Some \<lparr>txid = Transaction_id env parent_txn, txout_idx = 0\<rparr>,
               unlock_sig = [], unlock_pk = Some [], sequence = 0\<rparr>],
      txouts = [\<lparr>value = 10, to_address = ''b''\<rparr>],
      locktime = None\<rparr>"

definition parent_in_mempool :: "env \<Rightarrow> state" where
  "parent_in_mempool env = initial_state\<lparr>mempool := [(Transaction_id env parent_txn, parent_txn)]\<rparr>"

subsection \<open>A large transaction in the mempool\<close>

text \<open>
  A transaction of exactly 1,000,000 bytes (the most \<^verbatim>\<open>validate_basics\<close> admits) in
  the mempool, its input in the UTXO set, and the empty candidate block that
  \<^verbatim>\<open>assemble_and_solve_block\<close> hands to \<^verbatim>\<open>select_from_mempool\<close>.
\<close>

definition big_txn :: Transaction where
  "big_txn =
     \<lparr>txins = [\<lparr>to_spend = Some \<lparr>txid = ''00'', txout_idx = 0\<rparr>, unlock_sig = [],
               unlock_pk = Some [], sequence = 0\<rparr>],
      txouts = [\<lparr>value = 1, to_address = replicate 999777 CHR ''a''\<rparr>],
      locktime = None\<rparr>"

definition candidate_block :: Block where
  "candidate_block =
     \<lparr>version = 0, prev_block_hash = None, merkle_hash = [], timestamp = 0,
      bits = 22, nonce = 0, txns = []\<rparr>"

definition big_in_mempool :: "env \<Rightarrow> state" where
  "big_in_mempool env =
     initial_state
       \<lparr>utxo_set := [\<lparr>txid = ''00'', txout_idx = 0\<rparr> \<mapsto>
            \<lparr>utxo_value = 1, utxo_to_address = ''a'', utxo_txid = ''00'', tx_idx = 0,
             utxo_is_coinbase = False, height = 1\<rparr>],
        mempool := [(Transaction_id env big_txn, big_txn)]\<rparr>"

subsection \<open>A block whose hash equals its target\<close>

text \<open>
  A hash function under which a block's hash equals its target \<open>2 ^ (256 - bits)\<close>,
  and a first block that is valid in every other respect.
\<close>

definition tie_env :: env where
  "tie_env =
     \<lparr>sha256d_digest = (\<lambda>s. 2 ^ 234), time_now = 1600000000, pubkey_to_address = (\<lambda>pk. []),
      key_from_string = (\<lambda>pk. True), ecdsa_verify = (\<lambda>pk sg m. True)\<rparr>"

definition tie_block :: Block where
  "tie_block =
     \<lparr>version = 0, prev_block_hash = None, merkle_hash = hexdigest (2 ^ 234),
      timestamp = 1600000000, bits = 22, nonce = 0, txns = [create_coinbase ''a'' 50 0]\<rparr>"

subsection \<open>A block that extends a side branch\<close>










section \<open>Lemmas on the builtins\<close>

lemma hexval_hexchar_all: "list_all (\<lambda>d. hexval (hexchar d) = Some d) [0..<16]"
  by code_simp

lemma hexval_hexchar: "d < 16 \<Longrightarrow> hexval (hexchar d) = Some d"
  using hexval_hexchar_all by (simp add: list_all_iff)

lemma int16_acc_append:
  "int16_acc a (xs @ ys) = (case int16_acc a xs of Inl e \<Rightarrow> Inl e | Inr a' \<Rightarrow> int16_acc a' ys)"
  by (induction xs arbitrary: a) (auto split: option.splits)

lemma int16_acc_hexn: "int16_acc a (hexn k n) = Inr (a * 16 ^ k + n mod 16 ^ k)"
proof (induction k arbitrary: n a)
  case 0
  then show ?case by simp
next
  case (Suc k)
  have "n mod (16 * 16 ^ k) = 16 * (n div 16 mod 16 ^ k) + n mod 16"
    by (simp add: mod_mult2_eq)
  then show ?case
    by (simp add: int16_acc_append Suc hexval_hexchar algebra_simps)
qed

lemma length_hexn: "length (hexn k n) = k"
  by (induction k arbitrary: n) auto

lemma length_hexdigest: "length (hexdigest n) = 64"
  by (simp add: hexdigest_def length_hexn)

text \<open>Reading a digest back with \<^verbatim>\<open>int(..., 16)\<close> gives its 256 bits.\<close>

lemma py_int16_sha256d: "py_int16 (sha256d env s) = Inr (int (sha256d_digest env s mod 2 ^ 256))"
proof -
  have "hexn 64 (sha256d_digest env s) \<noteq> []"
    using length_hexn [of 64 "sha256d_digest env s"] by auto
  moreover have "(16::nat) ^ 64 = 2 ^ 256" by simp
  ultimately show ?thesis
    by (simp add: py_int16_def sha256d_def hexdigest_def int16_acc_hexn)
qed

lemma digits_of_small: "n < 10 \<Longrightarrow> digits_of n = [hexchar n]"
  by (simp add: digits_of.simps)

lemma digits_of_large: "\<not> n < 10 \<Longrightarrow> digits_of n = digits_of (n div 10) @ [hexchar (n mod 10)]"
  by (subst digits_of.simps) simp

section \<open>The genesis block\<close>

lemma genesis_not_coinbase: "coinbase_indices (txns genesis_block) = []"
  by (simp add: coinbase_indices_def genesis_block_def is_coinbase_def)

text \<open>
  Whatever the hash function, the clock and the state, \<^verbatim>\<open>validate_block\<close> rejects the
  genesis block literal: at the latest because its only transaction has no input and
  so is no coinbase.
\<close>

lemma validate_block_genesis:
  "validate_block env st genesis_block \<in>
     {Inl (BlockValidationError ''Block timestamp too far in future'' None),
      Inl (BlockValidationError ''Block header doesn't satisfy bits'' None),
      Inl (BlockValidationError ''First txn must be coinbase and no more'' None)}"
proof -
  have t: "txns genesis_block \<noteq> []" and b: "bits genesis_block = 26"
    by (simp_all add: genesis_block_def)
  show ?thesis
    unfolding validate_block_def
    by (simp add: t b Block_id_def py_int16_sha256d genesis_not_coinbase del: insert_iff) auto
qed

text \<open>
  C1 (the code does otherwise). The claim: from the initial state, \<^verbatim>\<open>connect_block\<close> of
  the genesis block literal succeeds, the height is 1 and the UTXO set holds the
  genesis output. The code: for every hash function and clock, \<^verbatim>\<open>connect_block\<close>
  returns \<^verbatim>\<open>None\<close> and leaves the initial state as it was, so the height stays 0 and
  the UTXO set stays empty.
\<close>

theorem connect_block_genesis_rejected:
  "connect_block env initial_state genesis_block = (Inr None, initial_state)
   \<and> get_current_height (snd (connect_block env initial_state genesis_block)) = 0
   \<and> utxo_set (snd (connect_block env initial_state genesis_block)) = Map.empty"
proof -
  have "connect_block env initial_state genesis_block = (Inr None, initial_state)"
    using validate_block_genesis [of env initial_state]
    by (auto simp: connect_block_def)
  then show ?thesis
    by (simp add: get_current_height_def initial_state_def)
qed

text \<open>
  C10. \<^verbatim>\<open>Transaction.is_coinbase\<close> holds exactly when the transaction has one input and
  that input's \<^verbatim>\<open>to_spend\<close> is \<^verbatim>\<open>None\<close>; a transaction without inputs is no coinbase;
  the only transaction of the genesis block literal has no input, so the list of
  coinbase positions that \<^verbatim>\<open>validate_block\<close> compares with \<^verbatim>\<open>[0]\<close> differs from it, and
  \<^verbatim>\<open>validate_block\<close> raises BlockValidationError on the genesis block in every state.
\<close>

theorem is_coinbase_one_nil_input:
  "(is_coinbase t \<longleftrightarrow> (\<exists>i. txins t = [i] \<and> to_spend i = None))
   \<and> (txins t = [] \<longrightarrow> \<not> is_coinbase t)
   \<and> list_all (\<lambda>t. txins t = [] \<and> \<not> is_coinbase t) (txns genesis_block)
   \<and> coinbase_indices (txns genesis_block) \<noteq> [0]
   \<and> (\<forall>env st. \<exists>m. validate_block env st genesis_block = Inl (BlockValidationError m None))"
proof -
  have "is_coinbase t \<longleftrightarrow> (\<exists>i. txins t = [i] \<and> to_spend i = None)"
    by (cases "txins t") (auto simp: is_coinbase_def)
  moreover have "list_all (\<lambda>t. txins t = [] \<and> \<not> is_coinbase t) (txns genesis_block)"
    by (simp add: genesis_block_def is_coinbase_def)
  moreover have "\<exists>m. validate_block env st genesis_block = Inl (BlockValidationError m None)"
    for env st
    using validate_block_genesis [of env st] by auto
  ultimately show ?thesis
    by (auto simp: genesis_not_coinbase is_coinbase_def)
qed

theorem is_coinbase_one_nil_input_witness:
  "txins (hd (txns genesis_block)) = [] \<and> \<not> is_coinbase (hd (txns genesis_block))"
  using is_coinbase_one_nil_input [of "hd (txns genesis_block)"]
  by (simp add: genesis_block_def)

section \<open>Merkle roots\<close>

text \<open>With one to four leaves every level has an even number of nodes, and the root is defined.\<close>

lemma get_merkle_root_up_to_four:
  "\<exists>n. get_merkle_root env [l1] = Inr n"
  "\<exists>n. get_merkle_root env [l1, l2] = Inr n"
  "\<exists>n. get_merkle_root env [l1, l2, l3] = Inr n"
  "\<exists>n. get_merkle_root env [l1, l2, l3, l4] = Inr n"
  by (simp_all add: get_merkle_root_def find_root.simps newlevel_def chunks_two chunks_one
      chunks_Nil)

text \<open>
  C6 (the code does otherwise). The claim: the merkle root is defined for every
  non-empty list of leaves, the last node being duplicated at every level of odd
  length, for example for 6 leaves. The code duplicates the last leaf once, before the
  first level only: with 5 or 6 leaves the second level has 3 nodes, its last chunk
  has one node, and unpacking it into \<^verbatim>\<open>[i1, i2]\<close> raises ValueError.
\<close>

theorem get_merkle_root_odd_inner_level:
  "get_merkle_root env [l1, l2, l3, l4, l5] = Inl ValueError
   \<and> get_merkle_root env [l1, l2, l3, l4, l5, l6] = Inl ValueError"
  by (simp add: get_merkle_root_def find_root.simps newlevel_def chunks_two chunks_one chunks_Nil)

section \<open>Serialization round trips\<close>

lemma unhex_hexlify: "unhex (hexlify b) = Some b"
proof (induction b)
  case Nil
  then show ?case by (simp add: hexlify_def)
next
  case (Cons w b)
  have "unat w < 256"
    using unsigned_less [of w, where 'a=nat] by simp
  then have "unat w div 16 < 16" by simp
  moreover have "(of_nat (16 * (unat w div 16) + unat w mod 16) :: 8 word) = w"
    by simp
  ultimately show ?case
    using Cons by (simp add: hexlify_def hexval_hexchar)
qed

text \<open>
  The round trip holds for an outpoint, an output, an unspent output, and an input
  that carries a public key.
\<close>

lemma roundtrip_OutPoint:
  "deserialize (contents_to_primitive (obj_of_OutPoint p)) = Inr (obj_of_OutPoint p)"
  by (simp add: deserialize_def obj_of_OutPoint_def build_obj_def class_fields_def bytes_keys_def
      construct_def)

lemma roundtrip_TxOut:
  "deserialize (contents_to_primitive (obj_of_TxOut t)) = Inr (obj_of_TxOut t)"
  by (simp add: deserialize_def obj_of_TxOut_def build_obj_def class_fields_def bytes_keys_def
      construct_def)

lemma roundtrip_UnspentTxOut:
  "deserialize (contents_to_primitive (obj_of_UnspentTxOut u)) = Inr (obj_of_UnspentTxOut u)"
  by (simp add: deserialize_def obj_of_UnspentTxOut_def build_obj_def class_fields_def
      bytes_keys_def construct_def)

lemma roundtrip_TxIn:
  "unlock_pk i \<noteq> None \<Longrightarrow>
     deserialize (contents_to_primitive (obj_of_TxIn i)) = Inr (obj_of_TxIn i)"
  by (cases "to_spend i")
     (auto simp: deserialize_def obj_of_TxIn_def obj_of_OutPoint_def build_obj_def
       class_fields_def bytes_keys_def construct_def unhexlify_def unhex_hexlify)

text \<open>
  C7 (the code does otherwise). The claim: \<^verbatim>\<open>deserialize(serialize(x)) == x\<close> for every
  typed value, a coinbase input with \<^verbatim>\<open>unlock_pk = None\<close> and the transactions of
  \<^verbatim>\<open>create_coinbase\<close> included. The code: \<^verbatim>\<open>unlock_pk\<close> is a key of type \<^verbatim>\<open>bytes\<close>, so
  \<^verbatim>\<open>deserialize\<close> calls \<^verbatim>\<open>binascii.unhexlify(None)\<close> on it, a TypeError, for every
  coinbase input and every transaction that \<^verbatim>\<open>create_coinbase\<close> builds.
\<close>

theorem deserialize_coinbase_input_raises:
  "deserialize (contents_to_primitive
       (obj_of_TxIn \<lparr>to_spend = None, unlock_sig = s, unlock_pk = None, sequence = q\<rparr>))
     = Inl TypeError
   \<and> deserialize (contents_to_primitive (obj_of_Transaction (create_coinbase a v h)))
     = Inl TypeError"
  by (simp add: deserialize_def obj_of_TxIn_def obj_of_Transaction_def obj_of_TxOut_def
      create_coinbase_def build_obj_def class_fields_def bytes_keys_def unhexlify_def
      unhex_hexlify)

section \<open>Reorganization\<close>

lemma reorg_loop_keeps: "reorg_loop env st cs r = Inr r' \<Longrightarrow> r' = r"
  by (induction cs) (auto split: list.splits option.splits if_splits simp: Let_def)

text \<open>
  C3 (the code does otherwise). The claim: \<^verbatim>\<open>reorg_if_necessary\<close> calls \<^verbatim>\<open>try_reorg\<close>
  with the branch, its index and the fork index on every side branch higher than the
  active chain, and returns true iff a reorganization succeeded. The code calls
  \<^verbatim>\<open>try_reorg(chain)\<close>, one argument for three parameters: in no state does
  \<^verbatim>\<open>reorg_if_necessary\<close> return true, and on a side branch higher than the active
  chain it raises TypeError.
\<close>

theorem reorg_if_necessary_never_reorgs:
  "reorg_if_necessary env st \<noteq> Inr True
   \<and> reorg_if_necessary env (fork_state env) = Inl TypeError"
proof -
  have "reorg_if_necessary env st \<noteq> Inr True"
    using reorg_loop_keeps [of env st "side_branches st" False True]
    by (auto simp: reorg_if_necessary_def)
  moreover have "reorg_if_necessary env (fork_state env) = Inl TypeError"
    by (simp add: reorg_if_necessary_def fork_state_def fork_branch_def find_block_def
        default_chain_def)
  ultimately show ?thesis by simp
qed

lemma reorg_blocks_False:
  assumes "reorg_blocks env st branch fi old = (Inr False, st')"
    and "0 \<le> fi" and "nat fi \<le> length (active_chain st)"
  shows "active_chain st' = take (nat fi) (active_chain st) @ old
     \<and> utxo_set st' = utxo_set st \<and> mempool st' = mempool st
     \<and> side_branches st' = side_branches st"
  using assms
proof (induction branch arbitrary: st)
  case Nil
  then show ?case by simp
next
  case (Cons block rest)
  show ?case
  proof (cases "validate_block env st block")
    case (Inl e)
    with Cons.prems show ?thesis
      by (cases e) (auto simp: slice_to_def)
  next
    case (Inr r)
    with Cons.prems have
      "reorg_blocks env (st\<lparr>active_chain := active_chain st @ [block]\<rparr>) rest fi old = (Inr False, st')"
      by simp
    from Cons.IH [OF this] Cons.prems(2,3) show ?thesis
      by simp
  qed
qed

text \<open>
  C4 (the code does otherwise). The claim: when a block of the branch fails validation,
  \<^verbatim>\<open>try_reorg\<close> returns false and the active chain, fork block and old tail included,
  the UTXO set, the mempool and the side branches are as before. The code restores
  \<^verbatim>\<open>active_chain[:fork_idx] + old_active_branch\<close> with
  \<^verbatim>\<open>old_active_branch = active_chain[(fork_idx + 1):]\<close>: whenever \<^verbatim>\<open>try_reorg\<close> returns
  false for a fork index inside the active chain, the block at \<^verbatim>\<open>fork_idx\<close> is lost, so
  the active chain is not the prior one; the UTXO set, the mempool and the side
  branches are unchanged.
\<close>

theorem try_reorg_failure_drops_fork_block:
  assumes "fst (try_reorg env st branch branch_idx fork_idx) = Inr False"
    and "0 \<le> fork_idx" and "fork_idx < int (length (active_chain st))"
  shows "active_chain (snd (try_reorg env st branch branch_idx fork_idx))
       = take (nat fork_idx) (active_chain st) @ drop (Suc (nat fork_idx)) (active_chain st)
     \<and> active_chain (snd (try_reorg env st branch branch_idx fork_idx)) \<noteq> active_chain st
     \<and> utxo_set (snd (try_reorg env st branch branch_idx fork_idx)) = utxo_set st
     \<and> mempool (snd (try_reorg env st branch branch_idx fork_idx)) = mempool st
     \<and> side_branches (snd (try_reorg env st branch branch_idx fork_idx)) = side_branches st"
proof -
  define old where "old = slice_from (active_chain st) (fork_idx + 1)"
  define st1 where "st1 = st\<lparr>active_chain := slice_to (active_chain st) fork_idx @ branch,
                   detached_default := Some (default_chain st)\<rparr>"
  obtain r st2 where rb: "reorg_blocks env st1 branch fork_idx old = (r, st2)"
    by (cases "reorg_blocks env st1 branch fork_idx old")
  have res: "r = Inr False \<and> try_reorg env st branch branch_idx fork_idx = (Inr False, st2)"
  proof (cases r)
    case (Inl e)
    with rb assms(1) show ?thesis
      by (simp add: try_reorg_def Let_def old_def [symmetric] st1_def [symmetric])
  next
    case (Inr ok)
    with rb assms(1) show ?thesis
      by (cases ok)
         (auto simp: try_reorg_def Let_def old_def [symmetric] st1_def [symmetric]
           split: option.splits prod.splits if_splits)
  qed
  have a1: "active_chain st1 = take (nat fork_idx) (active_chain st) @ branch"
    using assms(2) by (simp add: st1_def slice_to_def)
  have "nat fork_idx \<le> length (active_chain st1)"
    using assms(2,3) by (simp add: a1)
  from reorg_blocks_False [OF _ assms(2) this, of env branch old st2] rb res
  have f: "active_chain st2 = take (nat fork_idx) (active_chain st1) @ old"
    "utxo_set st2 = utxo_set st1" "mempool st2 = mempool st1" "side_branches st2 = side_branches st1"
    by simp_all
  have o: "old = drop (Suc (nat fork_idx)) (active_chain st)"
    using assms(2) by (simp add: old_def slice_from_def nat_add_distrib)
  have ac: "active_chain st2 = take (nat fork_idx) (active_chain st) @ drop (Suc (nat fork_idx)) (active_chain st)"
    using assms(2,3) by (simp add: f a1 o)
  have "length (active_chain st2) < length (active_chain st)"
    using assms(2,3) by (simp add: ac)
  then have "active_chain st2 \<noteq> active_chain st"
    by auto
  with ac f res show ?thesis
    by (simp add: st1_def)
qed

text \<open>
  C4 at fork index 0 of that chain: \<^verbatim>\<open>try_reorg\<close> returns false and the chain of two
  blocks comes back as its tip alone.
\<close>

theorem try_reorg_failure_drops_fork_block_witness:
  "\<forall>env. fst (try_reorg env two_block_state [empty_block] 0 0) = Inr False
     \<and> (0::int) < int (length (active_chain two_block_state))
     \<and> active_chain two_block_state = [genesis_block, stale_tip]
     \<and> active_chain (snd (try_reorg env two_block_state [empty_block] 0 0)) = [stale_tip]
     \<and> utxo_set (snd (try_reorg env two_block_state [empty_block] 0 0)) = utxo_set two_block_state
     \<and> mempool (snd (try_reorg env two_block_state [empty_block] 0 0)) = mempool two_block_state
     \<and> side_branches (snd (try_reorg env two_block_state [empty_block] 0 0))
         = side_branches two_block_state"
proof
  fix env
  have r: "fst (try_reorg env two_block_state [empty_block] 0 0) = Inr False"
    by (simp add: try_reorg_def two_block_state_def empty_block_def validate_block_def
        slice_from_def slice_to_def)
  have l: "(0::int) < int (length (active_chain two_block_state))"
    by (simp add: two_block_state_def)
  have a: "active_chain two_block_state = [genesis_block, stale_tip]"
    by (simp add: two_block_state_def)
  from try_reorg_failure_drops_fork_block [OF r _ l] r l a
  show "fst (try_reorg env two_block_state [empty_block] 0 0) = Inr False
     \<and> (0::int) < int (length (active_chain two_block_state))
     \<and> active_chain two_block_state = [genesis_block, stale_tip]
     \<and> active_chain (snd (try_reorg env two_block_state [empty_block] 0 0)) = [stale_tip]
     \<and> utxo_set (snd (try_reorg env two_block_state [empty_block] 0 0)) = utxo_set two_block_state
     \<and> mempool (snd (try_reorg env two_block_state [empty_block] 0 0)) = mempool two_block_state
     \<and> side_branches (snd (try_reorg env two_block_state [empty_block] 0 0))
         = side_branches two_block_state"
    by simp
qed

section \<open>The length of a serialization\<close>

text \<open>
  The length of the JSON text does not depend on the order of the keys, so it is
  computed without sorting them.
\<close>

lemma length_join:
  "length (join sep xs) = sum_list (map length xs) + length sep * (length xs - 1)"
  by (induction sep xs rule: join.induct) auto

lemma sum_list_insort_key: "sum_list (map f (insort_key k x xs)) = f x + sum_list (map f xs)"
  for f :: "'a \<Rightarrow> nat"
  by (induction xs) auto

lemma sum_list_sort_key: "sum_list (map f (sort_key k xs)) = sum_list (map f xs)"
  for f :: "'a \<Rightarrow> nat"
  by (induction xs) (auto simp: sum_list_insort_key)

lemma length_json_dumps_JObj:
  "length (json_dumps (JObj kvs)) =
     2 + sum_list (map (\<lambda>kv. length (json_string (fst kv)) + 1 + length (json_dumps (snd kv))) kvs)
       + (length kvs - 1)"
  by (simp add: length_join sum_list_sort_key json_member_def o_def case_prod_beta)

lemma length_json_dumps_JList:
  "length (json_dumps (JList xs)) = 2 + sum_list (map (\<lambda>x. length (json_dumps x)) xs) + (length xs - 1)"
  by (simp add: length_join o_def)

lemma json_escape_hexchar_all: "list_all (\<lambda>d. json_escape (hexchar d) = [hexchar d]) [0..<16]"
  by code_simp

lemma json_escape_hexchar: "d < 16 \<Longrightarrow> json_escape (hexchar d) = [hexchar d]"
  using json_escape_hexchar_all by (simp add: list_all_iff)

lemma escape_hexn: "concat (map json_escape (hexn k n)) = hexn k n"
  by (induction k arbitrary: n) (auto simp: json_escape_hexchar)

lemma length_json_string_hexdigest: "length (json_string (hexdigest n)) = 66"
  by (simp add: json_string_def hexdigest_def escape_hexn length_hexn)

lemma length_json_string_sha256d: "length (json_string (sha256d env s)) = 66"
  by (simp add: sha256d_def length_json_string_hexdigest)

lemma length_json_string_replicate_a: "length (json_string (replicate n CHR ''a'')) = n + 2"
proof -
  have "json_escape CHR ''a'' = ''a''"
    by (simp add: json_escape_def)
  then have "concat (map json_escape (replicate n CHR ''a'')) = replicate n CHR ''a''"
    by (induction n) auto
  then show ?thesis
    by (simp add: json_string_def)
qed

lemmas size_simps =
  serialize_def obj_of_Block_def obj_of_Transaction_def obj_of_TxIn_def obj_of_TxOut_def
  obj_of_OutPoint_def length_json_dumps_JObj length_json_dumps_JList json_string_def
  json_escape_def py_str_def digits_of_small digits_of_large hexchar_def hexlify_def encode_def

lemma escape_sha256d: "concat (map json_escape (sha256d env s)) = sha256d env s"
  by (simp add: sha256d_def hexdigest_def escape_hexn)

lemma length_sha256d: "length (sha256d env s) = 64"
  by (simp add: sha256d_def length_hexdigest)

lemma escape_Transaction_id: "concat (map json_escape (Transaction_id env t)) = Transaction_id env t"
  by (simp add: Transaction_id_def escape_sha256d)

lemma length_Transaction_id: "length (Transaction_id env t) = 64"
  by (simp add: Transaction_id_def length_sha256d)

section \<open>Spending an output of the mempool\<close>

lemma child_txn_basics: "validate_basics (child_txn env) False = Inr ()"
  by (simp add: validate_basics_def child_txn_def size_simps escape_Transaction_id length_Transaction_id
      MAX_BLOCK_SERIALIZED_SIZE_def MAX_MONEY_def BELUSHIS_PER_COIN_def TOTAL_COINS_def
      del: json_dumps.simps(5,6))

text \<open>
  C8 (the code does otherwise). The claim: with \<^verbatim>\<open>allow_utxo_from_mempool\<close>, an input
  whose outpoint is not in the UTXO set but is an output of a mempool transaction is
  resolved to that output and validation goes on; only an output found in neither
  place raises TxnValidationError with the transaction as orphan. The code: when the
  transaction is in the mempool, \<^verbatim>\<open>find_utxo_in_mempool\<close> passes its id, a string, to
  \<^verbatim>\<open>from_mempool_txn\<close>, and \<^verbatim>\<open>validate_txn\<close> raises AttributeError; with the mempool
  empty it raises the orphan error as claimed.
\<close>

theorem validate_txn_mempool_parent_raises:
  "validate_txn env (parent_in_mempool env) (child_txn env) False True = Inl AttributeError
   \<and> validate_txn env initial_state (child_txn env) False True
       = Inl (TxnValidationError ''Could find no UTXO for TxIn[0] -- orphaning txn''
               (Some (child_txn env)))"
proof -
  have i: "txins (child_txn env) =
      [\<lparr>to_spend = Some \<lparr>txid = Transaction_id env parent_txn, txout_idx = 0\<rparr>,
               unlock_sig = [], unlock_pk = Some [], sequence = 0\<rparr>]"
    by (simp add: child_txn_def)
  show ?thesis
    by (simp add: validate_txn_def child_txn_basics i parent_in_mempool_def initial_state_def
      find_utxo_in_mempool_def from_mempool_txn_def py_str_def digits_of_small hexchar_def)
qed

section \<open>The size of a block filled from the mempool\<close>

lemma length_big_txn: "length (serialize (obj_of_Transaction big_txn)) = 1000000"
  by (simp add: big_txn_def size_simps del: json_dumps.simps(5,6))

lemma length_candidate: "length (serialize (obj_of_Block candidate_block)) = 113"
  by (simp add: candidate_block_def size_simps del: json_dumps.simps(5,6))

lemma length_filled: "length (serialize (obj_of_Block (candidate_block\<lparr>txns := [big_txn]\<rparr>))) = 1000113"
  by (simp add: candidate_block_def big_txn_def size_simps del: json_dumps.simps(5,6))

text \<open>
  C9 (the code does otherwise). The claim: the block that \<^verbatim>\<open>select_from_mempool\<close>
  returns has at most 1,000,000 bytes. The code: \<^verbatim>\<open>check_block_size(b)\<close> measures the
  block of the enclosing function, not \<open>b\<close>, so a transaction is added whenever the
  block before adding it is under the cap: the candidate of 113 bytes comes back with
  the transaction, 1,000,113 bytes long.
\<close>

theorem select_from_mempool_exceeds_cap:
  "select_from_mempool env (big_in_mempool env) candidate_block
     = Inr (Some (candidate_block\<lparr>txns := [big_txn]\<rparr>))
   \<and> int (length (serialize (obj_of_Block (candidate_block\<lparr>txns := [big_txn]\<rparr>))))
       > MAX_BLOCK_SERIALIZED_SIZE
   \<and> validate_basics big_txn False = Inr ()"
proof -
  have t: "txns candidate_block = []" "txins big_txn =
      [\<lparr>to_spend = Some \<lparr>txid = ''00'', txout_idx = 0\<rparr>, unlock_sig = [],
               unlock_pk = Some [], sequence = 0\<rparr>]"
     "txouts big_txn = [\<lparr>value = 1, to_address = replicate 999777 CHR ''a''\<rparr>]"
    by (simp_all add: candidate_block_def big_txn_def)
  have "select_from_mempool env (big_in_mempool env) candidate_block
     = Inr (Some (candidate_block\<lparr>txns := [big_txn]\<rparr>))"
    by (simp add: select_from_mempool_def big_in_mempool_def initial_state_def add_to_block_def
        check_block_size_def length_candidate t MAX_BLOCK_SERIALIZED_SIZE_def)
  moreover have "validate_basics big_txn False = Inr ()"
    by (simp add: validate_basics_def length_big_txn t MAX_BLOCK_SERIALIZED_SIZE_def
        MAX_MONEY_def BELUSHIS_PER_COIN_def TOTAL_COINS_def)
  ultimately show ?thesis
    by (simp add: length_filled MAX_BLOCK_SERIALIZED_SIZE_def)
qed

section \<open>The proof-of-work check\<close>

lemma coinbase_basics: "validate_basics (create_coinbase ''a'' 50 0) True = Inr ()"
  by (simp add: validate_basics_def create_coinbase_def size_simps
      MAX_BLOCK_SERIALIZED_SIZE_def MAX_MONEY_def BELUSHIS_PER_COIN_def TOTAL_COINS_def
      del: json_dumps.simps(5,6))

lemma coinbase_indices_single: "coinbase_indices [create_coinbase a v h] = [0]"
  by (simp add: coinbase_indices_def is_coinbase_def create_coinbase_def)

lemma merkle_root_single:
  "get_merkle_root_of_txns env [t]
     = Inr (MerkleNode
         (sha256d env (sha256d env (Transaction_id env t) @ sha256d env (Transaction_id env t)))
         (Some [MerkleNode (sha256d env (Transaction_id env t)) None,
                MerkleNode (sha256d env (Transaction_id env t)) None]))"
  by (simp add: get_merkle_root_of_txns_def get_merkle_root_def find_root.simps newlevel_def
      chunks_two chunks_Nil)

text \<open>
  C2 (the code does otherwise). The claim: \<^verbatim>\<open>validate_block\<close> raises
  BlockValidationError for every block whose header hash is at least
  \<open>2 ^ (256 - bits)\<close>. The code compares with \<^verbatim>\<open>>\<close>: a block whose hash equals the target
  passes the check, and here the whole validation. And when \<^verbatim>\<open>bits\<close> exceeds 256 the
  shift \<^verbatim>\<open>1 << (256 - block.bits)\<close> raises ValueError, whatever the hash, in place of
  BlockValidationError.
\<close>

theorem validate_block_hash_equal_target:
  "py_int16 (Block_id tie_env tie_block) = Inr (2 ^ nat (256 - bits tie_block))
   \<and> validate_block tie_env initial_state tie_block = Inr (tie_block, 0)
   \<and> (\<forall>d. validate_block (tie_env\<lparr>sha256d_digest := d\<rparr>) initial_state
              (tie_block\<lparr>bits := 257\<rparr>) = Inl ValueError)"
proof -
  have f: "txns tie_block = [create_coinbase ''a'' 50 0]" "bits tie_block = 22"
    "timestamp tie_block = 1600000000" "prev_block_hash tie_block = None"
    "merkle_hash tie_block = hexdigest (2 ^ 234)"
    by (simp_all add: tie_block_def)
  have e: "sha256d_digest tie_env = (\<lambda>s. 2 ^ 234)" "time_now tie_env = 1600000000"
    by (simp_all add: tie_env_def)
  have h: "py_int16 (Block_id tie_env tie_block) = Inr (2 ^ 234)"
    by (simp add: Block_id_def py_int16_sha256d e)
  have s: "sha256d tie_env x = hexdigest (2 ^ 234)" for x
    by (simp add: sha256d_def e)
  have "validate_block tie_env initial_state tie_block = Inr (tie_block, 0)"
    unfolding validate_block_def
    by (simp add: f e h coinbase_indices_single coinbase_basics merkle_root_single s
        get_next_work_required_def INITIAL_DIFFICULTY_BITS_def get_median_time_past_def
        initial_state_def MAX_FUTURE_BLOCK_TIME_def ACTIVE_CHAIN_IDX_def)
  moreover have "validate_block (tie_env\<lparr>sha256d_digest := d\<rparr>) initial_state
              (tie_block\<lparr>bits := 257\<rparr>) = Inl ValueError" for d
    unfolding validate_block_def
    by (simp add: f e Block_id_def py_int16_sha256d MAX_FUTURE_BLOCK_TIME_def)
  ultimately show ?thesis
    using h by (simp add: f)
qed

section \<open>Connecting a block to a side branch\<close>












subsection \<open>A block connected to a side branch\<close>























end
